theory Spec2Isabelle
  imports Complex_Main "HOL-Library.AList"
begin

section \<open>JavaScript values, strings and objects\<close>

text \<open>
  The program is \<^verbatim>\<open>src/app.js\<close> (the current version of the script, the second half of the
  file). Its data are JavaScript numbers, strings and plain objects used as dictionaries.

  \<^item> A number is \<open>NaN\<close>, one of the two infinities, or a finite value. A finite value is
    carried as a real: arithmetic on finite values is exact here, the rounding of IEEE
    doubles and the sign of zero are not part of the model.
  \<^item> A property value read from an object is \<open>undefined\<close> (no such key), \<open>null\<close> or a
    number.
  \<^item> A string is a \<open>string\<close>; the characters with a special meaning for the program
    (whitespace, quotes, commas, digits, letters) are the ASCII ones.
  \<^item> A plain object is an association list in insertion order; writing a property is
    \<open>AList.update\<close> (an existing key keeps its place, a new key goes last) and reading
    one is \<open>map_of\<close>. Keys are ordinary own properties: the stores are keyed by region
    codes, and no code of the script enumerates the year keys of a series.
\<close>

datatype jsnum = NaN | PosInf | NegInf | Fin real

datatype jsval = Undefined | Null | Number jsnum

type_synonym 'a jsobj = "(string \<times> 'a) list"

definition jsget :: "'a jsobj \<Rightarrow> string \<Rightarrow> 'a option" where
  "jsget obj k = map_of obj k"

definition jsset :: "string \<Rightarrow> 'a \<Rightarrow> 'a jsobj \<Rightarrow> 'a jsobj" where
  "jsset k v obj = AList.update k v obj"

text \<open>A time series \<^verbatim>\<open>{ name, values }\<close>; \<^verbatim>\<open>values[y]\<close> of a missing key is \<open>undefined\<close>.\<close>

record series =
  name :: string
  "values" :: "jsval jsobj"

type_synonym store = "series jsobj"

definition valueAt :: "series \<Rightarrow> string \<Rightarrow> jsval" where
  "valueAt s y = (case jsget (values s) y of None \<Rightarrow> Undefined | Some v \<Rightarrow> v)"

subsection \<open>String primitives\<close>

definition isSpace :: "char \<Rightarrow> bool" where
  "isSpace c = (c \<in> set [CHR 0x09, CHR 0x0A, CHR 0x0B, CHR 0x0C, CHR 0x0D, CHR 0x20])"

definition isDigit :: "char \<Rightarrow> bool" where
  "isDigit c = (48 \<le> (of_char c :: nat) \<and> (of_char c :: nat) \<le> 57)"

definition trimStart :: "string \<Rightarrow> string" where
  "trimStart s = dropWhile isSpace s"

definition trim :: "string \<Rightarrow> string" where
  "trim s = rev (dropWhile isSpace (rev (dropWhile isSpace s)))"

text \<open>\<^verbatim>\<open>s.split(c)\<close> for a one-character separator: never empty, \<^verbatim>\<open>"".split(c)\<close> is \<^verbatim>\<open>[""]\<close>.\<close>

fun split :: "char \<Rightarrow> string \<Rightarrow> string list" where
  "split c [] = [[]]"
| "split c (x # xs) =
     (if x = c then [] # split c xs
      else (case split c xs of [] \<Rightarrow> [[x]] | w # ws \<Rightarrow> (x # w) # ws))"

definition toUpperChar :: "char \<Rightarrow> char" where
  "toUpperChar c =
     (if 97 \<le> (of_char c :: nat) \<and> (of_char c :: nat) \<le> 122 then char_of (of_char c - (32::nat)) else c)"


definition toUpperCase :: "string \<Rightarrow> string" where
  "toUpperCase s = map toUpperChar s"


text \<open>
  \<^verbatim>\<open>s.replace(/\s+/g, '_')\<close>: every maximal run of whitespace becomes one underscore.
  The flag says that the previous character was whitespace of a run already replaced.
\<close>

fun replaceRuns :: "bool \<Rightarrow> string \<Rightarrow> string" where
  "replaceRuns inRun [] = []"
| "replaceRuns inRun (c # cs) =
     (if isSpace c then (if inRun then replaceRuns True cs else CHR ''_'' # replaceRuns True cs)
      else c # replaceRuns False cs)"

definition replaceWhitespace :: "string \<Rightarrow> string" where
  "replaceWhitespace s = replaceRuns False s"

subsection \<open>Subnational code synthesis (\<^verbatim>\<open>mergeStateData\<close>, line 885)\<close>

text \<open>\<^verbatim>\<open>const code = 'USA_ST_' + name.replace(/\s+/g, '_').toUpperCase();\<close>\<close>

definition stateCode :: "string \<Rightarrow> string" where
  "stateCode nm = ''USA_ST_'' @ toUpperCase (replaceWhitespace nm)"

subsection \<open>Numbers\<close>

text \<open>
  The arithmetic of the script on numbers, with the special values written out:
  \<open>x / 0\<close> is an infinity (or \<open>NaN\<close> for \<open>0 / 0\<close>), \<open>\<infinity> - \<infinity>\<close>, \<open>\<infinity> / \<infinity>\<close> and
  \<open>0 * \<infinity>\<close> are \<open>NaN\<close>, and \<open>NaN\<close> is contagious. Zero is unsigned and stands for \<open>+0\<close>.
\<close>

fun jneg :: "jsnum \<Rightarrow> jsnum" where
  "jneg NaN = NaN"
| "jneg PosInf = NegInf"
| "jneg NegInf = PosInf"
| "jneg (Fin x) = Fin (- x)"

fun jsub :: "jsnum \<Rightarrow> jsnum \<Rightarrow> jsnum" where
  "jsub NaN b = NaN"
| "jsub a NaN = NaN"
| "jsub PosInf PosInf = NaN"
| "jsub NegInf NegInf = NaN"
| "jsub PosInf b = PosInf"
| "jsub NegInf b = NegInf"
| "jsub (Fin x) PosInf = NegInf"
| "jsub (Fin x) NegInf = PosInf"
| "jsub (Fin x) (Fin y) = Fin (x - y)"

fun jmul :: "jsnum \<Rightarrow> jsnum \<Rightarrow> jsnum" where
  "jmul NaN b = NaN"
| "jmul a NaN = NaN"
| "jmul (Fin x) (Fin y) = Fin (x * y)"
| "jmul (Fin x) PosInf = (if x = 0 then NaN else if 0 < x then PosInf else NegInf)"
| "jmul (Fin x) NegInf = (if x = 0 then NaN else if 0 < x then NegInf else PosInf)"
| "jmul PosInf (Fin y) = (if y = 0 then NaN else if 0 < y then PosInf else NegInf)"
| "jmul NegInf (Fin y) = (if y = 0 then NaN else if 0 < y then NegInf else PosInf)"
| "jmul PosInf PosInf = PosInf"
| "jmul PosInf NegInf = NegInf"
| "jmul NegInf PosInf = NegInf"
| "jmul NegInf NegInf = PosInf"

fun jdiv :: "jsnum \<Rightarrow> jsnum \<Rightarrow> jsnum" where
  "jdiv NaN b = NaN"
| "jdiv a NaN = NaN"
| "jdiv (Fin x) (Fin y) =
     (if y = 0 then (if x = 0 then NaN else if 0 < x then PosInf else NegInf) else Fin (x / y))"
| "jdiv (Fin x) PosInf = Fin 0"
| "jdiv (Fin x) NegInf = Fin 0"
| "jdiv PosInf (Fin y) = (if 0 \<le> y then PosInf else NegInf)"
| "jdiv NegInf (Fin y) = (if 0 \<le> y then NegInf else PosInf)"
| "jdiv PosInf b = NaN"
| "jdiv NegInf b = NaN"

text \<open>\<^verbatim>\<open>a < b\<close> and \<^verbatim>\<open>a > b\<close> on numbers: false as soon as one side is \<open>NaN\<close>.\<close>

fun jless :: "jsnum \<Rightarrow> jsnum \<Rightarrow> bool" where
  "jless NaN b = False"
| "jless a NaN = False"
| "jless PosInf b = False"
| "jless a NegInf = False"
| "jless NegInf b = True"
| "jless (Fin x) PosInf = True"
| "jless (Fin x) (Fin y) = (x < y)"

text \<open>\<^verbatim>\<open>Math.log\<close>, \<^verbatim>\<open>Math.floor\<close> and \<^verbatim>\<open>Math.min\<close> of two arguments.\<close>

fun Math_log :: "jsnum \<Rightarrow> jsnum" where
  "Math_log NaN = NaN"
| "Math_log PosInf = PosInf"
| "Math_log NegInf = NaN"
| "Math_log (Fin x) = (if x < 0 then NaN else if x = 0 then NegInf else Fin (ln x))"

fun Math_floor :: "jsnum \<Rightarrow> jsnum" where
  "Math_floor (Fin x) = Fin (of_int \<lfloor>x\<rfloor>)"
| "Math_floor a = a"

fun Math_min :: "jsnum \<Rightarrow> jsnum \<Rightarrow> jsnum" where
  "Math_min NaN b = NaN"
| "Math_min a NaN = NaN"
| "Math_min a b = (if jless b a then b else a)"

text \<open>
  Truthiness of a value read from a series, as the conditions \<^verbatim>\<open>(a && b)\<close> test it:
  \<open>undefined\<close>, \<open>null\<close>, \<open>NaN\<close> and zero are falsy.
\<close>

fun truthy :: "jsval \<Rightarrow> bool" where
  "truthy Undefined = False"
| "truthy Null = False"
| "truthy (Number n) = (n \<noteq> NaN \<and> n \<noteq> Fin 0)"

subsection \<open>\<^verbatim>\<open>parseFloat\<close> and \<^verbatim>\<open>isNaN\<close> of a string\<close>

text \<open>
  \<^verbatim>\<open>parseFloat\<close> skips leading whitespace and reads the longest prefix that is a decimal
  literal: an optional sign, then \<^verbatim>\<open>Infinity\<close> or digits with an optional fraction and an
  optional exponent. No such prefix gives \<open>NaN\<close>. The finite result is the exact decimal
  value of the prefix.
\<close>

definition digitsVal :: "string \<Rightarrow> nat" where
  "digitsVal ds = foldl (\<lambda>a c. 10 * a + (of_char c - 48)) 0 ds"

definition takeSign :: "string \<Rightarrow> bool \<times> string" where
  "takeSign s =
     (case s of [] \<Rightarrow> (False, [])
      | c # cs \<Rightarrow> if c = CHR ''-'' then (True, cs) else if c = CHR ''+'' then (False, cs)
                 else (False, s))"

definition exponentPart :: "string \<Rightarrow> (int \<times> string) option" where
  "exponentPart s =
     (case s of [] \<Rightarrow> None
      | c # cs \<Rightarrow>
          if c = CHR ''e'' \<or> c = CHR ''E'' then
            (case takeSign cs of (neg, r) \<Rightarrow>
               let ds = takeWhile isDigit r in
               if ds = [] then None
               else Some (if neg then - int (digitsVal ds) else int (digitsVal ds),
                          dropWhile isDigit r))
          else None)"

definition scale10 :: "real \<Rightarrow> int \<Rightarrow> real" where
  "scale10 m e = (if e < 0 then m / 10 ^ nat (- e) else m * 10 ^ nat e)"

definition strUnsignedDecimalLiteral :: "string \<Rightarrow> (jsnum \<times> string) option" where
  "strUnsignedDecimalLiteral s =
     (if take 8 s = ''Infinity'' then Some (PosInf, drop 8 s)
      else
        let ip = takeWhile isDigit s;
            r1 = dropWhile isDigit s;
            fr = (case r1 of [] \<Rightarrow> ([], r1)
                  | c # cs \<Rightarrow> if c = CHR ''.'' then (takeWhile isDigit cs, dropWhile isDigit cs)
                             else ([], r1));
            fp = fst fr;
            r2 = snd fr
        in if ip = [] \<and> fp = [] then None
           else
             let m = real (digitsVal (ip @ fp)) / 10 ^ length fp
             in (case exponentPart r2 of
                   None \<Rightarrow> Some (Fin m, r2)
                 | Some (e, r3) \<Rightarrow> Some (Fin (scale10 m e), r3)))"

definition strDecimalLiteral :: "string \<Rightarrow> (jsnum \<times> string) option" where
  "strDecimalLiteral s =
     (case takeSign s of (neg, r) \<Rightarrow>
        (case strUnsignedDecimalLiteral r of
           None \<Rightarrow> None
         | Some (v, rest) \<Rightarrow> Some (if neg then jneg v else v, rest)))"

definition parseFloat :: "string \<Rightarrow> jsnum" where
  "parseFloat s = (case strDecimalLiteral (trimStart s) of None \<Rightarrow> NaN | Some (v, rest) \<Rightarrow> v)"

text \<open>
  \<^verbatim>\<open>isNaN(s)\<close> of a string converts it with \<^verbatim>\<open>Number(s)\<close>: the trimmed string must be empty
  (zero), a whole decimal literal, or a hexadecimal, octal or binary integer literal.
\<close>

definition isHexDigit :: "char \<Rightarrow> bool" where
  "isHexDigit c = (isDigit c \<or> (97 \<le> (of_char c :: nat) \<and> (of_char c :: nat) \<le> 102)
                    \<or> (65 \<le> (of_char c :: nat) \<and> (of_char c :: nat) \<le> 70))"

definition isNonDecimalLiteral :: "string \<Rightarrow> bool" where
  "isNonDecimalLiteral s =
     (case s of
        c0 # c1 # ds \<Rightarrow>
          c0 = CHR ''0'' \<and> ds \<noteq> [] \<and>
          ((c1 = CHR ''x'' \<or> c1 = CHR ''X'') \<and> list_all isHexDigit ds
           \<or> (c1 = CHR ''o'' \<or> c1 = CHR ''O'') \<and> list_all (\<lambda>d. d \<in> set ''01234567'') ds
           \<or> (c1 = CHR ''b'' \<or> c1 = CHR ''B'') \<and> list_all (\<lambda>d. d \<in> set ''01'') ds)
      | _ \<Rightarrow> False)"

definition isNaNString :: "string \<Rightarrow> bool" where
  "isNaNString s =
     (let t = trim s in
      \<not> (t = [] \<or> isNonDecimalLiteral t
         \<or> (case strDecimalLiteral t of Some (v, rest) \<Rightarrow> rest = [] | None \<Rightarrow> False)))"

subsection \<open>The quote-aware tokenizer \<^verbatim>\<open>parseCSVLine\<close> (lines 907-925)\<close>

fun csvLoop :: "string \<Rightarrow> string list \<Rightarrow> string \<Rightarrow> bool \<Rightarrow> string list" where
  "csvLoop [] parts current inQuote = parts @ [trim current]"
| "csvLoop (c # cs) parts current inQuote =
     (if c = CHR 0x22 then csvLoop cs parts current (\<not> inQuote)
      else if c = CHR '','' \<and> \<not> inQuote then csvLoop cs (parts @ [trim current]) [] inQuote
      else csvLoop cs parts (current @ [c]) inQuote)"

text \<open>\<^verbatim>\<open>p.replace(/^"|"$/g, '')\<close>: one quote at the start and one at the end are removed.\<close>

definition stripOuterQuotes :: "string \<Rightarrow> string" where
  "stripOuterQuotes p =
     (let p1 = (case p of [] \<Rightarrow> [] | c # cs \<Rightarrow> if c = CHR 0x22 then cs else p)
      in if p1 \<noteq> [] \<and> last p1 = CHR 0x22 then butlast p1 else p1)"

definition parseCSVLine :: "string \<Rightarrow> string list" where
  "parseCSVLine line = map (\<lambda>p. trim (stripOuterQuotes p)) (csvLoop line [] [] False)"

subsection \<open>The country table parser \<^verbatim>\<open>parseCSV\<close> (lines 927-963)\<close>

fun findIndex :: "('a \<Rightarrow> bool) \<Rightarrow> 'a list \<Rightarrow> nat option" where
  "findIndex P [] = None"
| "findIndex P (x # xs) = (if P x then Some 0 else map_option Suc (findIndex P xs))"

text \<open>\<^verbatim>\<open>const val = parseFloat(parts[j]); values[...] = isNaN(val) ? null : val;\<close>\<close>

definition cellValue :: "string \<Rightarrow> jsval" where
  "cellValue c = (let val = parseFloat c in if val = NaN then Null else Number val)"

text \<open>
  The column is skipped when \<^verbatim>\<open>headers[j]\<close> is \<open>undefined\<close> (no such header), the empty
  string, or not a number.
\<close>

definition skipColumn :: "string list \<Rightarrow> nat \<Rightarrow> bool" where
  "skipColumn headers j =
     (\<not> j < length headers \<or> headers ! j = [] \<or> isNaNString (trim (headers ! j)))"

definition rowValues :: "string list \<Rightarrow> nat \<Rightarrow> string list \<Rightarrow> jsval jsobj" where
  "rowValues headers startYearIdx parts =
     fold (\<lambda>j vals. if skipColumn headers j then vals
                     else jsset (trim (headers ! j)) (cellValue (parts ! j)) vals)
          [startYearIdx ..< length parts] []"

definition parseRow :: "string list \<Rightarrow> nat \<Rightarrow> string \<Rightarrow> store \<Rightarrow> store" where
  "parseRow headers startYearIdx line data =
     (if trim line = [] then data
      else
        let parts = parseCSVLine line in
        if length parts < 5 then data
        else jsset (parts ! 1)
               \<lparr>name = parts ! 0, values = rowValues headers startYearIdx parts\<rparr> data)"

definition parseCSV :: "string \<Rightarrow> store" where
  "parseCSV csvText =
     (let lines = split (CHR 0x0A) (trim csvText) in
      if \<not> 4 < length lines \<or> lines ! 4 = [] then []
      else
        let headers = parseCSVLine (lines ! 4) in
        (case findIndex (\<lambda>h. trim h = ''1960'') headers of
           None \<Rightarrow> []
         | Some startYearIdx \<Rightarrow> fold (parseRow headers startYearIdx) (drop 5 lines) []))"

subsection \<open>The subnational merge \<^verbatim>\<open>mergeStateData\<close> (lines 865-899)\<close>

text \<open>
  A value is stored for the year \<^verbatim>\<open>years[y]\<close> only when the row has the cell and the
  cell is not empty; the stored value is \<^verbatim>\<open>parseFloat(val)\<close> as it comes.
\<close>

definition stateValues :: "string list \<Rightarrow> string list \<Rightarrow> jsval jsobj" where
  "stateValues years parts =
     fold (\<lambda>y vals. let valIdx = y + 1 in
                     if valIdx < length parts \<and> parts ! valIdx \<noteq> []
                     then jsset (years ! y) (Number (parseFloat (parts ! valIdx))) vals
                     else vals)
          [0 ..< length years] []"

definition mergeRow :: "string list \<Rightarrow> string \<Rightarrow> store \<Rightarrow> store" where
  "mergeRow years line target =
     (if trim line = [] then target
      else
        let parts = parseCSVLine line in
        if length parts < 2 then target
        else
          let nm = parts ! 0 in
          jsset (stateCode nm) \<lparr>name = nm, values = stateValues years parts\<rparr> target)"

text \<open>
  The body of \<^verbatim>\<open>mergeStateData\<close> on the target store. \<^verbatim>\<open>split\<close> never returns the empty
  array, so \<^verbatim>\<open>lines[0]\<close> exists and the first case is never taken.
\<close>

definition mergeInto :: "string \<Rightarrow> store \<Rightarrow> store" where
  "mergeInto csvText target =
     (case split (CHR 0x0A) (trim csvText) of
        [] \<Rightarrow> target
      | line0 # rest \<Rightarrow>
          let header = map trim (split (CHR '','') line0);
              years = drop 1 header
          in fold (mergeRow years) rest target)"

text \<open>
  The four raw stores of \<^verbatim>\<open>state.rawData\<close>; \<^verbatim>\<open>targetKey\<close> is one of their four names
  (the only keys \<^verbatim>\<open>init\<close> passes).
\<close>

record rawStores =
  gdpCurrent :: store
  gdpConstant :: store
  pppCurrent :: store
  pppConstant :: store

datatype targetKey = GdpCurrentKey | GdpConstantKey | PppCurrentKey | PppConstantKey

fun mergeStateData :: "string \<Rightarrow> targetKey \<Rightarrow> rawStores \<Rightarrow> rawStores" where
  "mergeStateData csvText GdpCurrentKey raw = raw\<lparr>gdpCurrent := mergeInto csvText (gdpCurrent raw)\<rparr>"
| "mergeStateData csvText GdpConstantKey raw = raw\<lparr>gdpConstant := mergeInto csvText (gdpConstant raw)\<rparr>"
| "mergeStateData csvText PppCurrentKey raw = raw\<lparr>pppCurrent := mergeInto csvText (pppCurrent raw)\<rparr>"
| "mergeStateData csvText PppConstantKey raw = raw\<lparr>pppConstant := mergeInto csvText (pppConstant raw)\<rparr>"

subsection \<open>Loop bodies as optional writes\<close>

text \<open>
  Every loop of the two parsers either leaves its object alone or writes one property.
  \<open>writes f\<close> is such a loop body; the entries below say which property each loop writes
  for one element, and the lemmas \<open>parseRow_writes\<close> to \<open>stateValues_writes\<close> show
  that the loops above are of this form.
\<close>

definition writes :: "('x \<Rightarrow> (string \<times> 'v) option) \<Rightarrow> 'x \<Rightarrow> 'v jsobj \<Rightarrow> 'v jsobj" where
  "writes f x acc = (case f x of None \<Rightarrow> acc | Some (k, v) \<Rightarrow> jsset k v acc)"

definition colEntry :: "string list \<Rightarrow> string list \<Rightarrow> nat \<Rightarrow> (string \<times> jsval) option" where
  "colEntry headers parts j =
     (if skipColumn headers j then None else Some (trim (headers ! j), cellValue (parts ! j)))"

text \<open>A line that \<^verbatim>\<open>parseCSV\<close> accepts as a data row: not blank, at least five tokens.\<close>

definition dataRow :: "string \<Rightarrow> bool" where
  "dataRow line = (trim line \<noteq> [] \<and> 5 \<le> length (parseCSVLine line))"

definition rowEntry :: "string list \<Rightarrow> nat \<Rightarrow> string \<Rightarrow> (string \<times> series) option" where
  "rowEntry headers startYearIdx line =
     (if dataRow line
      then Some (parseCSVLine line ! 1,
                 \<lparr>name = parseCSVLine line ! 0,
                  values = rowValues headers startYearIdx (parseCSVLine line)\<rparr>)
      else None)"

definition stateColEntry :: "string list \<Rightarrow> string list \<Rightarrow> nat \<Rightarrow> (string \<times> jsval) option" where
  "stateColEntry years parts y =
     (if y + 1 < length parts \<and> parts ! (y + 1) \<noteq> []
      then Some (years ! y, Number (parseFloat (parts ! (y + 1)))) else None)"

definition stateEntry :: "string list \<Rightarrow> string \<Rightarrow> (string \<times> series) option" where
  "stateEntry years line =
     (if trim line \<noteq> [] \<and> 2 \<le> length (parseCSVLine line)
      then Some (stateCode (parseCSVLine line ! 0),
                 \<lparr>name = parseCSVLine line ! 0,
                  values = stateValues years (parseCSVLine line)\<rparr>)
      else None)"

subsection \<open>Application state (\<^verbatim>\<open>state\<close>, \<^verbatim>\<open>updateActiveData\<close>, \<^verbatim>\<open>setPriceType\<close>)\<close>

datatype view = ViewGdp | ViewPpp | ViewCompare | ViewRatio | ViewMap

datatype priceType = PriceCurrent | PriceConstant

text \<open>
  \<^verbatim>\<open>state.gdpData\<close> and \<^verbatim>\<open>state.pppData\<close> are references to two of the raw stores, set by
  \<^verbatim>\<open>updateActiveData\<close>. The raw stores are only written by \<^verbatim>\<open>init\<close>, before the first call
  of \<^verbatim>\<open>updateActiveData\<close>, so the references are modelled as copies.
\<close>

record state =
  gdpData :: store
  pppData :: store
  rawData :: rawStores
  selectedCountries :: "string list"
  currentView :: view
  priceType :: priceType
  yearStart :: int
  yearEnd :: int
  mapYear :: int

definition updateActiveData :: "state \<Rightarrow> state" where
  "updateActiveData st =
     (if priceType st = PriceCurrent
      then st\<lparr>gdpData := gdpCurrent (rawData st), pppData := pppCurrent (rawData st)\<rparr>
      else st\<lparr>gdpData := gdpConstant (rawData st), pppData := pppConstant (rawData st)\<rparr>)"

definition setPriceType :: "priceType \<Rightarrow> state \<Rightarrow> state" where
  "setPriceType t st = updateActiveData (st\<lparr>priceType := t\<rparr>)"

text \<open>
  A year is a number in the state and a string as a property key: \<^verbatim>\<open>values[year]\<close> reads
  the key that is the decimal numeral of the year.
\<close>

fun natToString :: "nat \<Rightarrow> string" where
  "natToString n =
     (if n < 10 then [char_of (48 + n)] else natToString (n div 10) @ [char_of (48 + n mod 10)])"

declare natToString.simps [simp del]

definition yearKey :: "int \<Rightarrow> string" where
  "yearKey y = (if y < 0 then CHR ''-'' # natToString (nat (- y)) else natToString (nat y))"

text \<open>\<^verbatim>\<open>obj ? obj.values[year] : null\<close> for an entry that may be missing from its store.\<close>

definition valueOrNull :: "series option \<Rightarrow> int \<Rightarrow> jsval" where
  "valueOrNull entry y = (case entry of None \<Rightarrow> Null | Some c \<Rightarrow> valueAt c (yearKey y))"

text \<open>\<^verbatim>\<open>obj?.values[year]\<close>: \<open>undefined\<close> when the entry is missing.\<close>

definition valueOrUndefined :: "series option \<Rightarrow> int \<Rightarrow> jsval" where
  "valueOrUndefined entry y = (case entry of None \<Rightarrow> Undefined | Some c \<Rightarrow> valueAt c (yearKey y))"

subsection \<open>Growth over an interval\<close>

text \<open>Conversion of a value to a number where arithmetic needs one.\<close>

fun toNum :: "jsval \<Rightarrow> jsnum" where
  "toNum Undefined = NaN"
| "toNum Null = Fin 0"
| "toNum (Number n) = n"

text \<open>
  The expression \<^verbatim>\<open>(endVal && startVal) ? ((endVal - startVal) / startVal * 100) : null\<close>,
  the same at every site that computes a growth.
\<close>

definition growthExpr :: "jsval \<Rightarrow> jsval \<Rightarrow> jsval" where
  "growthExpr endVal startVal =
     (if truthy endVal \<and> truthy startVal
      then Number (jmul (jdiv (jsub (toNum endVal) (toNum startVal)) (toNum startVal)) (Fin 100))
      else Null)"

text \<open>
  \<^verbatim>\<open>updateInsights\<close> (lines 1893-1917): \<open>growthPeriod\<close> of a selected country in the list
  \<^verbatim>\<open>countryStats\<close>. The list has no entry (\<open>None\<close>) for a country that is not in the data
  source (\<^verbatim>\<open>.filter(code => dataSource[code])\<close>) or whose end value is falsy
  (\<^verbatim>\<open>.filter(c => c.endVal)\<close>).
\<close>

definition insightsGrowth :: "state \<Rightarrow> string \<Rightarrow> jsval option" where
  "insightsGrowth st c =
     (let usePPP = (currentView st = ViewPpp);
          dataSource = (if usePPP then pppData st else gdpData st)
      in case jsget dataSource c of
           None \<Rightarrow> None
         | Some country \<Rightarrow>
             let endVal = valueAt country (yearKey (yearEnd st));
                 startVal = valueAt country (yearKey (yearStart st));
                 growthPeriod = growthExpr endVal startVal
             in if truthy endVal then Some growthPeriod else None)"

text \<open>
  \<^verbatim>\<open>updateDataTable\<close> (lines 1780-1796): the \<open>growth\<close> field of a row, \<open>None\<close> when the code
  is in neither active store and the row is dropped.
\<close>

definition tableGrowth :: "state \<Rightarrow> string \<Rightarrow> jsval option" where
  "tableGrowth st c =
     (let usePPP = (currentView st = ViewPpp);
          latestYear = yearEnd st;
          prevYear = yearStart st;
          gdpEntry = jsget (gdpData st) c;
          pppEntry = jsget (pppData st) c
      in if gdpEntry = None \<and> pppEntry = None then None
         else
           let gVal = valueOrNull gdpEntry latestYear;
               pVal = valueOrNull pppEntry latestYear
           in Some (case (usePPP, pppEntry, gdpEntry) of
                      (True, Some p, _) \<Rightarrow> growthExpr pVal (valueAt p (yearKey prevYear))
                    | (_, _, Some g) \<Rightarrow> growthExpr gVal (valueAt g (yearKey prevYear))
                    | _ \<Rightarrow> Null))"

subsection \<open>The ratio of the two series (PLI)\<close>

text \<open>The expression \<^verbatim>\<open>(gVal && pVal) ? (gVal / pVal) : null\<close>.\<close>

definition ratioExpr :: "jsval \<Rightarrow> jsval \<Rightarrow> jsval" where
  "ratioExpr gVal pVal =
     (if truthy gVal \<and> truthy pVal then Number (jdiv (toNum gVal) (toNum pVal)) else Null)"

text \<open>
  \<^verbatim>\<open>createRatioDatasets\<close> (lines 1447-1482): the data point of a selected country for the
  year \<open>y\<close>; \<open>None\<close> when the country is dropped from the chart.
\<close>

definition chartRatio :: "state \<Rightarrow> string \<Rightarrow> int \<Rightarrow> jsval option" where
  "chartRatio st c y =
     (let gdpEntry = jsget (gdpCurrent (rawData st)) c;
          pppEntry = jsget (pppCurrent (rawData st)) c
      in case (gdpEntry, pppEntry) of
           (Some g, Some p) \<Rightarrow> Some (ratioExpr (valueAt g (yearKey y)) (valueAt p (yearKey y)))
         | _ \<Rightarrow> None)"

text \<open>\<^verbatim>\<open>updateDataTable\<close> (lines 1798-1804): the \<open>ratio\<close> field of a row.\<close>

definition tableRatio :: "state \<Rightarrow> string \<Rightarrow> jsval option" where
  "tableRatio st c =
     (let latestYear = yearEnd st;
          gdpEntry = jsget (gdpData st) c;
          pppEntry = jsget (pppData st) c
      in if gdpEntry = None \<and> pppEntry = None then None
         else
           let gdpCur = jsget (gdpCurrent (rawData st)) c;
               pppCur = jsget (pppCurrent (rawData st)) c;
               gValCur = valueOrNull gdpCur latestYear;
               pValCur = valueOrNull pppCur latestYear
           in Some (ratioExpr gValCur pValCur))"

text \<open>
  \<^verbatim>\<open>renderMap\<close> (lines 1605-1615): the \<open>ratio\<close> that the tooltip of a map feature shows
  under the label \<^verbatim>\<open>PLI\<close>.
\<close>

definition mapRatio :: "state \<Rightarrow> string \<Rightarrow> jsval" where
  "mapRatio st c =
     (let year = mapYear st;
          gdpCountry = jsget (gdpData st) c;
          pppCountry = jsget (pppData st) c;
          gdpVal = valueOrNull gdpCountry year;
          pppVal = valueOrNull pppCountry year
      in ratioExpr gdpVal pppVal)"

subsection \<open>Choropleth colouring (\<^verbatim>\<open>renderMap\<close>, lines 1549-1595)\<close>

text \<open>
  An entry of \<^verbatim>\<open>countryStats\<close>. Only codes whose value for the map year is neither \<open>null\<close>
  nor \<open>undefined\<close> get an entry, so \<open>gdp\<close> is a number.
\<close>

record countryStat =
  code :: string
  cname :: string
  gdp :: jsnum
  ppp :: jsval
  growth :: jsval
  ratio :: jsval

definition statFor :: "state \<Rightarrow> string \<Rightarrow> countryStat option" where
  "statFor st c =
     (let year = mapYear st;
          gdpCountry = jsget (gdpData st) c;
          pppCountry = jsget (pppData st) c;
          gdpVal = valueOrUndefined gdpCountry year;
          pppVal = valueOrUndefined pppCountry year;
          prevYear = year - 5;
          gdpPrev = valueOrUndefined gdpCountry prevYear
      in case gdpVal of
           Number g \<Rightarrow>
             Some \<lparr>code = c,
                   cname = (case gdpCountry of Some s \<Rightarrow> series.name s | None \<Rightarrow> []),
                   gdp = g, ppp = pppVal, growth = growthExpr gdpVal gdpPrev,
                   ratio = ratioExpr gdpVal pppVal\<rparr>
         | _ \<Rightarrow> None)"

text \<open>\<^verbatim>\<open>Object.keys(state.gdpData).forEach(...)\<close>: the entries in key order, before sorting.\<close>

definition countryStats :: "state \<Rightarrow> countryStat list" where
  "countryStats st = List.map_filter (statFor st) (map fst (gdpData st))"

text \<open>The loop that finds \<open>min\<close> and \<open>max\<close>, starting from \<open>Infinity\<close> and \<open>-Infinity\<close>.\<close>

definition statsMin :: "countryStat list \<Rightarrow> jsnum" where
  "statsMin cs = fold (\<lambda>c m. if jless (gdp c) m then gdp c else m) cs PosInf"

definition statsMax :: "countryStat list \<Rightarrow> jsnum" where
  "statsMax cs = fold (\<lambda>c m. if jless m (gdp c) then gdp c else m) cs NegInf"

definition colors :: "string list" where
  "colors = [''#dbeafe'', ''#93c5fd'', ''#3b82f6'', ''#1d4ed8'', ''#1e3a8a'']"

text \<open>
  \<^verbatim>\<open>colors[idx]\<close> for a number \<open>idx\<close>: the element when \<open>idx\<close> is an integer inside the
  array, \<open>undefined\<close> (\<open>None\<close>) for every other number.
\<close>

definition arrayAt :: "'a list \<Rightarrow> jsnum \<Rightarrow> 'a option" where
  "arrayAt xs idx =
     (case idx of
        Fin r \<Rightarrow> if r = of_int \<lfloor>r\<rfloor> \<and> 0 \<le> r \<and> nat \<lfloor>r\<rfloor> < length xs then Some (xs ! nat \<lfloor>r\<rfloor>)
                 else None
      | _ \<Rightarrow> None)"

definition normalized :: "jsnum \<Rightarrow> jsnum \<Rightarrow> jsnum" where
  "normalized mx val = jdiv (Math_log val) (Math_log mx)"

definition bucketIndex :: "jsnum \<Rightarrow> jsnum \<Rightarrow> jsnum" where
  "bucketIndex mx val =
     Math_min (Math_floor (jmul (normalized mx val) (Fin (real (length colors)))))
              (Fin (real (length colors) - 1))"

text \<open>
  \<^verbatim>\<open>colorScale\<close>, a closure over \<open>max\<close> and the no-data colour. The result is the \<open>fill\<close> of
  the map feature; \<open>None\<close> is \<open>undefined\<close>.
\<close>

definition colorScale :: "string \<Rightarrow> jsnum \<Rightarrow> jsval \<Rightarrow> string option" where
  "colorScale noDataColor mx val =
     (case val of
        Null \<Rightarrow> Some noDataColor
      | Undefined \<Rightarrow> Some noDataColor
      | Number v \<Rightarrow> arrayAt colors (bucketIndex mx v))"

text \<open>The fill of the feature of a country: \<^verbatim>\<open>colorScale(gdpVal)\<close> with the \<open>max\<close> of the year.\<close>

definition featureFill :: "string \<Rightarrow> state \<Rightarrow> string \<Rightarrow> string option" where
  "featureFill noDataColor st c =
     colorScale noDataColor (statsMax (countryStats st))
       (valueOrNull (jsget (gdpData st) c) (mapYear st))"

subsection \<open>Map projection (\<^verbatim>\<open>generatePathData\<close>, lines 1706-1730)\<close>

text \<open>
  \<^verbatim>\<open>project\<close> on one vertex. Coordinates and the canvas size are finite numbers, and the
  clamped latitude keeps every intermediate value finite, so the computation is on reals.
  The function returns the two coordinates; the script prints each with two decimals.
\<close>

definition maxLat :: real where
  "maxLat = 85"

definition mercMax :: real where
  "mercMax = ln (tan (pi / 4 + (maxLat * pi / 180) / 2))"

definition project :: "real \<Rightarrow> real \<Rightarrow> real \<times> real \<Rightarrow> real \<times> real" where
  "project width height coords =
     (let lon = fst coords;
          lat = max (- maxLat) (min maxLat (snd coords));
          x = (lon + 180) * (width / 360);
          latRad = lat * pi / 180;
          mercY = ln (tan (pi / 4 + latRad / 2));
          y = (height / 2) - (mercY / mercMax) * (height / 2)
      in (x, y))"

subsection \<open>Global rankings (\<^verbatim>\<open>renderMap\<close> line 1575, \<^verbatim>\<open>renderGlobalRankings\<close>)\<close>

text \<open>
  \<^verbatim>\<open>Array.prototype.sort\<close> with a comparator is a stable sort: \<open>a\<close> moves behind \<open>b\<close> only
  when the comparator of \<open>(a, b)\<close> is positive (\<open>NaN\<close> counts as zero). It is modelled as
  the stable insertion sort; for a comparator that is a consistent order this is the
  result of every conforming implementation.
\<close>

fun insertBy :: "('a \<Rightarrow> 'a \<Rightarrow> jsnum) \<Rightarrow> 'a \<Rightarrow> 'a list \<Rightarrow> 'a list" where
  "insertBy cmp x [] = [x]"
| "insertBy cmp x (y # ys) =
     (if jless (Fin 0) (cmp x y) then y # insertBy cmp x ys else x # y # ys)"

definition sortBy :: "('a \<Rightarrow> 'a \<Rightarrow> jsnum) \<Rightarrow> 'a list \<Rightarrow> 'a list" where
  "sortBy cmp xs = foldr (insertBy cmp) xs []"








subsection \<open>Sample inputs\<close>

definition sampleCountryTable :: string where
  "sampleCountryTable =
     ''Data Source,World Development Indicators'' @ [CHR 0x0A] @
     [CHR 0x0A] @
     ''Last Updated Date,2024-06-28'' @ [CHR 0x0A] @
     [CHR 0x0A] @
     ''Country Name,Country Code,Indicator Name,Indicator Code,1960,1961'' @ [CHR 0x0A] @
     [CHR 0x22] @ ''Aruba'' @ [CHR 0x22] @ '',ABW,GDP per capita,NY.GDP.PCAP.CD,100.5,'' @ [CHR 0x0A] @
     ''Chad,TCD,GDP per capita,NY.GDP.PCAP.CD,abc,0''"

definition sampleStateTable :: string where
  "sampleStateTable = ''State,2020,2021'' @ [CHR 0x0A] @ ''New York,N/A,5''"

definition emptyRawData :: rawStores where
  "emptyRawData = \<lparr>gdpCurrent = [], gdpConstant = [], pppCurrent = [], pppConstant = []\<rparr>"

text \<open>
  A state with one country \<^verbatim>\<open>XYZ\<close> whose four series differ, and one country \<^verbatim>\<open>ZED\<close>
  whose current-price GDP falls to zero in 2023.
\<close>

definition sampleSeries :: "string \<Rightarrow> real \<Rightarrow> real \<Rightarrow> series" where
  "sampleSeries nm v2018 v2023 =
     \<lparr>name = nm, values = [(''2018'', Number (Fin v2018)), (''2023'', Number (Fin v2023))]\<rparr>"

definition sampleRawData :: rawStores where
  "sampleRawData =
     \<lparr>gdpCurrent = [(''XYZ'', sampleSeries ''Xland'' 100 100), (''ZED'', sampleSeries ''Zedland'' 100 0)],
      gdpConstant = [(''XYZ'', sampleSeries ''Xland'' 100 300)],
      pppCurrent = [(''XYZ'', sampleSeries ''Xland'' 200 200)],
      pppConstant = [(''XYZ'', sampleSeries ''Xland'' 400 400)]\<rparr>"

definition sampleState :: "priceType \<Rightarrow> state" where
  "sampleState p =
     setPriceType p
       \<lparr>gdpData = [], pppData = [], rawData = sampleRawData,
        selectedCountries = [''XYZ'', ''ZED''],
        currentView = ViewGdp, priceType = PriceCurrent, yearStart = 2018, yearEnd = 2023,
        mapYear = 2023\<rparr>"

definition sampleStat :: "string \<Rightarrow> real \<Rightarrow> countryStat" where
  "sampleStat c g = \<lparr>code = c, cname = c, gdp = Fin g, ppp = Undefined, growth = Null, ratio = Null\<rparr>"



section \<open>Evaluating the samples\<close>

lemmas eval_defs = sampleCountryTable_def trim_def trimStart_def isSpace_def isDigit_def
  parseCSVLine_def stripOuterQuotes_def dataRow_def skipColumn_def isNaNString_def
  isNonDecimalLiteral_def strDecimalLiteral_def strUnsignedDecimalLiteral_def takeSign_def
  exponentPart_def digitsVal_def scale10_def parseFloat_def

lemmas state_defs = sampleState_def setPriceType_def updateActiveData_def sampleRawData_def
  sampleSeries_def jsget_def valueAt_def valueOrNull_def valueOrUndefined_def

lemma yearKey_2018: "yearKey 2018 = ''2018''"
  by code_simp

lemma yearKey_2023: "yearKey 2023 = ''2023''"
  by code_simp

lemma sample_mergeInto:
  "mergeInto sampleStateTable [] =
     [(''USA_ST_NEW_YORK'',
       \<lparr>name = ''New York'', values = [(''2020'', Number NaN), (''2021'', Number (Fin 5))]\<rparr>)]"
proof -
  have l: "split (CHR 0x0A) (trim sampleStateTable) = [''State,2020,2021'', ''New York,N/A,5'']"
    by (simp add: sampleStateTable_def trim_def isSpace_def)
  have hd: "trim ''2020'' = ''2020''" "trim ''2021'' = ''2021''"
    by (simp_all add: trim_def isSpace_def)
  have ps: "parseCSVLine ''New York,N/A,5'' = [''New York'', ''N/A'', ''5'']"
    by (simp add: eval_defs)
  have c: "stateCode ''New York'' = ''USA_ST_NEW_YORK''"
    by (simp add: stateCode_def toUpperCase_def toUpperChar_def replaceWhitespace_def isSpace_def
        char_of_eq_iff)
  have pf: "parseFloat ''N/A'' = NaN" "parseFloat ''5'' = Fin 5" by (simp_all add: eval_defs)
  have t: "trim ''New York,N/A,5'' \<noteq> []" by (simp add: trim_def isSpace_def)
  have sv: "stateValues [''2020'', ''2021''] [''New York'', ''N/A'', ''5'']
            = [(''2020'', Number NaN), (''2021'', Number (Fin 5))]"
    by (simp add: stateValues_def jsset_def pf upt_rec [of 0] upt_rec [of 1] upt_rec [of 2] Let_def)
  show ?thesis
    by (simp add: mergeInto_def l hd mergeRow_def ps c t sv Let_def jsset_def)
qed

section \<open>Objects written by loops\<close>

lemma update_commute_present:
  "k \<noteq> k' \<Longrightarrow> k \<in> fst ` set t \<Longrightarrow>
   AList.update k' v' (AList.update k v t) = AList.update k v (AList.update k' v' t)"
  by (induction t) auto

lemma fold_writes_other:
  "\<forall>y \<in> set xs. \<forall>w. f y \<noteq> Some (k, w) \<Longrightarrow> jsget (fold (writes f) xs acc) k = jsget acc k"
  by (induction xs arbitrary: acc)
     (auto simp: writes_def jsget_def jsset_def update_conv' split: option.splits)


lemma fold_writes_keys_present:
  "k \<in> fst ` set acc \<Longrightarrow> k \<in> fst ` set (fold (writes f) xs acc)"
  by (induction xs arbitrary: acc)
     (auto simp: writes_def jsset_def dom_update split: option.splits)

lemma fold_writes_absorb:
  assumes "\<exists>y \<in> set xs. \<exists>w. f y = Some (k, w)" and "k \<in> fst ` set t"
  shows "fold (writes f) xs (jsset k v t) = fold (writes f) xs t"
  using assms
proof (induction xs arbitrary: t)
  case Nil
  then show ?case by simp
next
  case (Cons x xs)
  show ?case
  proof (cases "f x")
    case None
    with Cons show ?thesis by (simp add: writes_def)
  next
    case (Some p)
    obtain k' v' where p: "p = (k', v')" by (cases p)
    show ?thesis
    proof (cases "k' = k")
      case True
      with Some p show ?thesis by (simp add: writes_def jsset_def)
    next
      case False
      with Cons.prems(1) Some p have ex: "\<exists>y \<in> set xs. \<exists>w. f y = Some (k, w)"
        by auto
      have pres: "k \<in> fst ` set (jsset k' v' t)"
        using Cons.prems(2) by (simp add: jsset_def dom_update)
      have "fold (writes f) (x # xs) (jsset k v t) = fold (writes f) xs (jsset k' v' (jsset k v t))"
        using Some p by (simp add: writes_def)
      also have "jsset k' v' (jsset k v t) = jsset k v (jsset k' v' t)"
        using False Cons.prems(2) by (simp add: jsset_def update_commute_present)
      also have "fold (writes f) xs (jsset k v (jsset k' v' t)) = fold (writes f) xs (jsset k' v' t)"
        using Cons.IH [OF ex pres] .
      also have "\<dots> = fold (writes f) (x # xs) t"
        using Some p by (simp add: writes_def)
      finally show ?thesis .
    qed
  qed
qed

lemma fold_writes_idem:
  "fold (writes f) xs (fold (writes f) xs acc) = fold (writes f) xs acc"
proof (induction xs arbitrary: acc)
  case Nil
  then show ?case by simp
next
  case (Cons x xs)
  show ?case
  proof (cases "f x")
    case None
    with Cons show ?thesis by (simp add: writes_def)
  next
    case (Some p)
    obtain k v where p: "p = (k, v)" by (cases p)
    let ?s = "jsset k v acc"
    let ?t = "fold (writes f) xs ?s"
    have kin: "k \<in> fst ` set ?t"
      by (rule fold_writes_keys_present) (simp add: jsset_def dom_update)
    have wx: "writes f x a = jsset k v a" for a
      using Some p by (simp add: writes_def)
    have "fold (writes f) xs (jsset k v ?t) = fold (writes f) xs ?t"
    proof (cases "\<exists>y \<in> set xs. \<exists>w. f y = Some (k, w)")
      case True
      then show ?thesis using kin by (rule fold_writes_absorb)
    next
      case False
      then have "\<forall>y \<in> set xs. \<forall>w. f y \<noteq> Some (k, w)"
        by auto
      then have "jsget ?t k = jsget ?s k" by (rule fold_writes_other)
      also have "\<dots> = Some v" by (simp add: jsget_def jsset_def update_conv')
      finally have "jsset k v ?t = ?t" by (simp add: jsget_def jsset_def update_triv)
      then show ?thesis by simp
    qed
    also have "\<dots> = ?t" by (rule Cons.IH)
    finally show ?thesis by (simp add: wx)
  qed
qed


lemma parseRow_writes: "parseRow headers s = writes (rowEntry headers s)"
  by (auto simp: fun_eq_iff parseRow_def writes_def rowEntry_def dataRow_def Let_def)

lemma rowValues_writes:
  "rowValues headers s parts = fold (writes (colEntry headers parts)) [s ..< length parts] []"
proof -
  have "(\<lambda>j vals. if skipColumn headers j then vals
                   else jsset (trim (headers ! j)) (cellValue (parts ! j)) vals)
        = writes (colEntry headers parts)"
    by (auto simp: fun_eq_iff writes_def colEntry_def)
  then show ?thesis by (simp add: rowValues_def)
qed

lemma mergeRow_writes: "mergeRow years = writes (stateEntry years)"
  by (auto simp: fun_eq_iff mergeRow_def writes_def stateEntry_def Let_def)

lemma stateValues_writes:
  "stateValues years parts = fold (writes (stateColEntry years parts)) [0 ..< length years] []"
proof -
  have "(\<lambda>y vals. let valIdx = y + 1 in
                   if valIdx < length parts \<and> parts ! valIdx \<noteq> []
                   then jsset (years ! y) (Number (parseFloat (parts ! valIdx))) vals
                   else vals)
        = writes (stateColEntry years parts)"
    by (auto simp: fun_eq_iff writes_def stateColEntry_def Let_def)
  then show ?thesis by (simp add: stateValues_def)
qed

text \<open>Keys stay unique, as the keys of an object are.\<close>

lemma fold_writes_distinct:
  "distinct (map fst acc) \<Longrightarrow> distinct (map fst (fold (writes f) xs acc))"
  by (induction xs arbitrary: acc)
     (auto simp: writes_def jsset_def distinct_update split: option.splits)

lemma parseCSV_distinct_keys: "distinct (map fst (parseCSV csvText))"
  by (simp add: parseCSV_def Let_def parseRow_writes fold_writes_distinct split: option.splits)

lemma mergeInto_distinct_keys:
  "distinct (map fst target) \<Longrightarrow> distinct (map fst (mergeInto csvText target))"
  by (simp add: mergeInto_def Let_def mergeRow_writes fold_writes_distinct split: list.splits)

section \<open>Idempotence of the subnational merge\<close>

lemma mergeInto_idem: "mergeInto csvText (mergeInto csvText target) = mergeInto csvText target"
  by (simp add: mergeInto_def mergeRow_writes fold_writes_idem Let_def split: list.splits)

text \<open>
  C9. Merging the same subnational table into a raw store a second time changes nothing:
  the store after two merges is the store after one, entry for entry (same keys in the
  same places, same names, same values per year), so nothing is duplicated and no value
  drifts.
\<close>

theorem mergeStateData_idempotent:
  "mergeStateData csvText targetKey (mergeStateData csvText targetKey raw)
   = mergeStateData csvText targetKey raw"
  by (cases targetKey) (simp_all add: mergeInto_idem)

theorem mergeStateData_idempotent_witness:
  "mergeStateData sampleStateTable GdpCurrentKey
     (mergeStateData sampleStateTable GdpCurrentKey emptyRawData)
   = mergeStateData sampleStateTable GdpCurrentKey emptyRawData
   \<and> map fst (gdpCurrent (mergeStateData sampleStateTable GdpCurrentKey
        (mergeStateData sampleStateTable GdpCurrentKey emptyRawData))) = [''USA_ST_NEW_YORK'']"
  using mergeStateData_idempotent [of sampleStateTable GdpCurrentKey emptyRawData]
  by (simp add: emptyRawData_def sample_mergeInto)

section \<open>Round trip through the country parser\<close>






subsection \<open>The round trip on the sample table\<close>





section \<open>Stored values and \<open>NaN\<close>\<close>

lemma set_update_subset: "set (AList.update k v al) \<subseteq> insert (k, v) (set al)"
  by (induction al) auto

lemma fold_writes_values:
  assumes "\<forall>(k, v) \<in> set acc. P v"
    and "\<forall>x \<in> set xs. \<forall>k v. f x = Some (k, v) \<longrightarrow> P v"
  shows "\<forall>(k, v) \<in> set (fold (writes f) xs acc). P v"
  using assms
proof (induction xs arbitrary: acc)
  case Nil
  then show ?case by simp
next
  case (Cons x xs)
  have "\<forall>(k, v) \<in> set (writes f x acc). P v"
  proof (cases "f x")
    case None
    with Cons.prems(1) show ?thesis by (simp add: writes_def)
  next
    case (Some p)
    obtain k v where p: "p = (k, v)" by (cases p)
    with Some Cons.prems(2) have "P v" by simp
    with Cons.prems(1) show ?thesis
      using set_update_subset [of k v acc] Some p by (auto simp: writes_def jsset_def)
  qed
  moreover have "\<forall>x \<in> set xs. \<forall>k v. f x = Some (k, v) \<longrightarrow> P v"
    using Cons.prems(2) by simp
  ultimately have "\<forall>(k, v) \<in> set (fold (writes f) xs (writes f x acc)). P v"
    by (rule Cons.IH)
  then show ?case by simp
qed

lemma cellValue_not_NaN: "cellValue c \<noteq> Number NaN \<and> cellValue c \<noteq> Undefined"
  by (simp add: cellValue_def Let_def)

lemma rowValues_not_NaN:
  "\<forall>(y, v) \<in> set (rowValues headers s parts). v \<noteq> Number NaN \<and> v \<noteq> Undefined"
  unfolding rowValues_writes
  by (rule fold_writes_values) (auto simp: colEntry_def cellValue_not_NaN split: if_splits)

lemma parseCSV_values_not_NaN:
  assumes "jsget (parseCSV csvText) k = Some ser" and "jsget (values ser) y = Some v"
  shows "v = Null \<or> (\<exists>n. v = Number n \<and> n \<noteq> NaN)"
proof -
  let ?ok = "\<lambda>ser. \<forall>(y, v) \<in> set (values ser). v \<noteq> Number NaN \<and> v \<noteq> Undefined"
  have "\<forall>(c, ser) \<in> set (parseCSV csvText). ?ok ser"
  proof (cases "parseCSV csvText = []")
    case True
    then show ?thesis by simp
  next
    case False
    then obtain headers s rows where
      "parseCSV csvText = fold (writes (rowEntry headers s)) rows []"
      by (auto simp: parseCSV_def Let_def parseRow_writes split: if_splits option.splits)
    moreover have "\<forall>(c, ser) \<in> set (fold (writes (rowEntry headers s)) rows []). ?ok ser"
      by (rule fold_writes_values) (auto simp: rowEntry_def rowValues_not_NaN split: if_splits)
    ultimately show ?thesis by simp
  qed
  moreover have "(k, ser) \<in> set (parseCSV csvText)"
    using assms(1) by (simp add: jsget_def map_of_SomeD)
  moreover have "(y, v) \<in> set (values ser)"
    using assms(2) by (simp add: jsget_def map_of_SomeD)
  ultimately have "v \<noteq> Number NaN \<and> v \<noteq> Undefined" by fastforce
  then show ?thesis by (cases v) auto
qed

text \<open>
  C2. A stored value is a number other than \<open>NaN\<close>, or the absence marker. The country
  parser keeps this (\<open>parseCSV_values_not_NaN\<close> above): it replaces \<open>NaN\<close> by \<open>null\<close>. The
  subnational merge does not: the cell \<^verbatim>\<open>N/A\<close> of the sample table is not empty, so
  \<^verbatim>\<open>parseFloat\<close> of it is stored as it is, and the value of New York for 2020 is \<open>NaN\<close>.
\<close>

theorem mergeStateData_stores_NaN:
  "map_option (\<lambda>ser. valueAt ser ''2020'')
     (jsget (gdpCurrent (mergeStateData sampleStateTable GdpCurrentKey emptyRawData))
        ''USA_ST_NEW_YORK'')
   = Some (Number NaN)"
  by (simp add: emptyRawData_def sample_mergeInto jsget_def valueAt_def)

section \<open>Growth over an interval at its sites\<close>

lemma growthExpr_finite:
  "x \<noteq> 0 \<Longrightarrow> y \<noteq> 0 \<Longrightarrow>
   growthExpr (Number (Fin x)) (Number (Fin y)) = Number (Fin ((x - y) / y * 100))"
  by (simp add: growthExpr_def)

lemma growthExpr_falsy:
  "e \<in> {Undefined, Null, Number (Fin 0), Number NaN} \<or> s \<in> {Undefined, Null, Number (Fin 0), Number NaN}
   \<Longrightarrow> growthExpr e s = Null"
  by (auto simp: growthExpr_def)

lemma growth_sign: "0 < y \<Longrightarrow> (0 < (x - y) / y * 100) = (y < (x::real))"
  by (simp add: zero_less_divide_iff zero_less_mult_iff)

lemma insightsGrowth_eq:
  "jsget (if currentView st = ViewPpp then pppData st else gdpData st) c = Some country \<Longrightarrow>
   insightsGrowth st c =
     (if truthy (valueAt country (yearKey (yearEnd st)))
      then Some (growthExpr (valueAt country (yearKey (yearEnd st)))
                            (valueAt country (yearKey (yearStart st))))
      else None)"
  by (simp add: insightsGrowth_def Let_def)

lemma tableGrowth_eq:
  "jsget (if currentView st = ViewPpp then pppData st else gdpData st) c = Some country \<Longrightarrow>
   tableGrowth st c = Some (growthExpr (valueAt country (yearKey (yearEnd st)))
                                        (valueAt country (yearKey (yearStart st))))"
  by (auto simp: tableGrowth_def Let_def valueOrNull_def split: option.splits bool.splits if_splits)

text \<open>
  C5 (as the code has it). For a region of the data source of the current view and the
  interval from \<open>yearStart\<close> to \<open>yearEnd\<close>, with endpoint values \<open>e\<close> (end) and \<open>s\<close> (start):
  the growth of the data table row is \<^verbatim>\<open>(e && s) ? (e - s) / s * 100 : null\<close>, and so is the
  growth of the insights panel for every country it keeps (those with a truthy end value).
  When both endpoints are finite numbers other than zero this is \<open>(e - s) / s * 100\<close>; when
  an endpoint is missing, \<open>null\<close> or zero it is \<open>null\<close>. For a positive start a positive
  result means an increase.
\<close>

theorem growth_at_both_sites:
  assumes "jsget (if currentView st = ViewPpp then pppData st else gdpData st) c = Some country"
    and "valueAt country (yearKey (yearEnd st)) = e"
    and "valueAt country (yearKey (yearStart st)) = s"
  shows "tableGrowth st c = Some (growthExpr e s)
     \<and> insightsGrowth st c = (if truthy e then Some (growthExpr e s) else None)
     \<and> (\<forall>x y. e = Number (Fin x) \<and> s = Number (Fin y) \<and> x \<noteq> 0 \<and> y \<noteq> 0
            \<longrightarrow> growthExpr e s = Number (Fin ((x - y) / y * 100)))
     \<and> (e \<in> {Undefined, Null, Number (Fin 0)} \<or> s \<in> {Undefined, Null, Number (Fin 0)}
            \<longrightarrow> growthExpr e s = Null)
     \<and> (\<forall>x y. e = Number (Fin x) \<and> s = Number (Fin y) \<and> x \<noteq> 0 \<and> 0 < y
            \<longrightarrow> (\<exists>g. growthExpr e s = Number (Fin g) \<and> (0 < g) = (y < x)))"
proof -
  have a: "insightsGrowth st c = (if truthy e then Some (growthExpr e s) else None)"
    using insightsGrowth_eq [OF assms(1)] assms(2,3) by simp
  have b: "tableGrowth st c = Some (growthExpr e s)"
    using tableGrowth_eq [OF assms(1)] assms(2,3) by simp
  have c: "\<forall>x y. e = Number (Fin x) \<and> s = Number (Fin y) \<and> x \<noteq> 0 \<and> y \<noteq> 0
            \<longrightarrow> growthExpr e s = Number (Fin ((x - y) / y * 100))"
    by (auto simp: growthExpr_finite)
  have d: "e \<in> {Undefined, Null, Number (Fin 0)} \<or> s \<in> {Undefined, Null, Number (Fin 0)}
            \<longrightarrow> growthExpr e s = Null"
    using growthExpr_falsy [of e s] by auto
  have f: "\<forall>x y. e = Number (Fin x) \<and> s = Number (Fin y) \<and> x \<noteq> 0 \<and> 0 < y
            \<longrightarrow> (\<exists>g. growthExpr e s = Number (Fin g) \<and> (0 < g) = (y < x))"
    using growth_sign by (auto simp: growthExpr_finite)
  from a b c d f show ?thesis by blast
qed

text \<open>
  The end value zero is not a case of the formula: for the sample country whose value falls
  from 100 to 0 the table row has the growth \<open>null\<close>, not \<open>-100\<close>.
\<close>

theorem growth_zero_end_counterexample:
  "tableGrowth (sampleState PriceCurrent) ''ZED'' = Some Null
   \<and> growthExpr (Number (Fin 0)) (Number (Fin 100)) \<noteq> Number (Fin ((0 - 100) / 100 * 100))"
  by (simp add: tableGrowth_def state_defs yearKey_2018 yearKey_2023 growthExpr_def)

theorem growth_at_both_sites_witness:
  "insightsGrowth (sampleState PriceConstant) ''XYZ'' = Some (Number (Fin 200))
   \<and> tableGrowth (sampleState PriceConstant) ''XYZ'' = Some (Number (Fin 200))"
proof -
  let ?st = "sampleState PriceConstant"
  have src: "jsget (if currentView ?st = ViewPpp then pppData ?st else gdpData ?st) ''XYZ''
             = Some (sampleSeries ''Xland'' 100 300)"
    by (simp add: state_defs)
  have e: "valueAt (sampleSeries ''Xland'' 100 300) (yearKey (yearEnd ?st)) = Number (Fin 300)"
    by (simp add: state_defs yearKey_2023)
  have s: "valueAt (sampleSeries ''Xland'' 100 300) (yearKey (yearStart ?st)) = Number (Fin 100)"
    by (simp add: state_defs yearKey_2018)
  from growth_at_both_sites [OF src e s] show ?thesis by simp
qed

section \<open>The price basis of the ratio\<close>

lemma rawData_setPriceType: "rawData (setPriceType p st) = rawData st"
  by (simp add: setPriceType_def updateActiveData_def)

lemma chartRatio_price_independent:
  "chartRatio (setPriceType p st) c y = chartRatio st c y"
  by (simp add: chartRatio_def rawData_setPriceType)

lemma tableRatio_current_prices:
  "tableRatio st c = Some r \<Longrightarrow>
   r = ratioExpr (valueOrNull (jsget (gdpCurrent (rawData st)) c) (yearEnd st))
                 (valueOrNull (jsget (pppCurrent (rawData st)) c) (yearEnd st))"
  by (auto simp: tableRatio_def Let_def split: if_splits)

lemma mapRatio_current:
  "mapRatio (setPriceType PriceCurrent st) c =
   ratioExpr (valueOrNull (jsget (gdpCurrent (rawData st)) c) (mapYear st))
             (valueOrNull (jsget (pppCurrent (rawData st)) c) (mapYear st))"
  by (simp add: mapRatio_def setPriceType_def updateActiveData_def Let_def)

lemma mapRatio_constant:
  "mapRatio (setPriceType PriceConstant st) c =
   ratioExpr (valueOrNull (jsget (gdpConstant (rawData st)) c) (mapYear st))
             (valueOrNull (jsget (pppConstant (rawData st)) c) (mapYear st))"
  by (simp add: mapRatio_def setPriceType_def updateActiveData_def Let_def)

text \<open>
  C6. The ratio chart and the data table take the ratio from the two current-price stores
  whatever the price basis is (the lemmas above). The map tooltip takes it from the active
  stores: with the basis set to constant prices the sample country has the ratio
  \<open>100 / 200\<close> in the chart and the table and \<open>300 / 400\<close> in the tooltip.
\<close>

theorem mapRatio_follows_displayed_basis:
  "chartRatio (sampleState PriceConstant) ''XYZ'' 2023 = Some (Number (Fin (1 / 2)))
   \<and> tableRatio (sampleState PriceConstant) ''XYZ'' = Some (Number (Fin (1 / 2)))
   \<and> mapRatio (sampleState PriceConstant) ''XYZ'' = Number (Fin (3 / 4))
   \<and> mapRatio (sampleState PriceCurrent) ''XYZ'' = Number (Fin (1 / 2))"
  by (simp add: chartRatio_def tableRatio_def mapRatio_def state_defs yearKey_2023 ratioExpr_def)

section \<open>The projection at its boundaries\<close>

lemma clamped_angle_range:
  assumes "- maxLat \<le> lat" and "lat \<le> maxLat"
  shows "0 < pi / 4 + (lat * pi / 180) / 2" and "pi / 4 + (lat * pi / 180) / 2 < pi / 2"
proof -
  have eq: "pi / 4 + (lat * pi / 180) / 2 = pi * ((90 + lat) / 360)" by (simp add: field_simps)
  have lo: "0 < (90 + lat) / 360" and hi: "(90 + lat) / 360 < 1 / 2"
    using assms by (simp_all add: maxLat_def)
  have "0 < pi * ((90 + lat) / 360)" using pi_gt_zero lo by (rule mult_pos_pos)
  then show "0 < pi / 4 + (lat * pi / 180) / 2" by (simp only: eq)
  have "pi * ((90 + lat) / 360) < pi * (1 / 2)"
    using hi pi_gt_zero by (rule mult_strict_left_mono)
  then show "pi / 4 + (lat * pi / 180) / 2 < pi / 2" by (simp only: eq)
qed

lemma clamped_tan_pos:
  "0 < tan (pi / 4 + (max (- maxLat) (min maxLat lat) * pi / 180) / 2)"
proof -
  have "- maxLat \<le> max (- maxLat) (min maxLat lat)" "max (- maxLat) (min maxLat lat) \<le> maxLat"
    by (simp_all add: maxLat_def)
  then show ?thesis using clamped_angle_range tan_gt_zero by blast
qed

lemma mercMax_pos: "0 < mercMax"
proof -
  have "pi / 4 < pi / 4 + (maxLat * pi / 180) / 2"
    using pi_gt_zero by (simp add: maxLat_def)
  moreover have "pi / 4 + (maxLat * pi / 180) / 2 < pi / 2"
    using clamped_angle_range(2) [of maxLat] by (simp add: maxLat_def)
  ultimately have "tan (pi / 4) < tan (pi / 4 + (maxLat * pi / 180) / 2)"
    using pi_gt_zero by (intro tan_monotone) simp_all
  then have "1 < tan (pi / 4 + (maxLat * pi / 180) / 2)" by (simp add: tan_45)
  then show ?thesis by (simp add: mercMax_def)
qed

text \<open>
  C7. On a canvas of size \<open>(W, H)\<close> the vertex at longitude \<open>-180\<close> and latitude \<open>0\<close> is
  projected to \<open>x = 0\<close> (and to the middle height), a vertex at longitude \<open>180\<close> to \<open>x = W\<close>,
  and a vertex whose latitude is \<open>85\<close> or more to the very point of the same longitude at
  latitude \<open>85\<close>, which lies on the top edge \<open>y = 0\<close>. The scale \<open>mercMax\<close> that the
  projection divides by is positive.
\<close>

theorem project_boundaries:
  "project W H (- 180, 0) = (0, H / 2)
   \<and> fst (project W H (180, lat)) = W
   \<and> (85 \<le> lat \<longrightarrow> project W H (lon, lat) = project W H (lon, 85))
   \<and> project W H (lon, 85) = ((lon + 180) * (W / 360), 0)
   \<and> 0 < mercMax"
proof -
  have a: "project W H (- 180, 0) = (0, H / 2)"
    by (simp add: project_def Let_def maxLat_def tan_45)
  have b: "fst (project W H (180, lat)) = W"
    by (simp add: project_def Let_def)
  have c: "85 \<le> lat \<longrightarrow> project W H (lon, lat) = project W H (lon, 85)"
    by (simp add: project_def Let_def maxLat_def)
  have "mercMax \<noteq> 0" using mercMax_pos by simp
  then have d: "project W H (lon, 85) = ((lon + 180) * (W / 360), 0)"
    by (simp add: project_def Let_def maxLat_def mercMax_def)
  from a b c d mercMax_pos show ?thesis by blast
qed

theorem project_boundaries_witness:
  "(85::real) \<le> 89 \<and> project 1000 600 (10, 89) = project 1000 600 (10, 85)
   \<and> fst (project 1000 600 (180, 40)) = 1000"
  using project_boundaries [of 1000 600 89 10] project_boundaries [of 1000 600 40 10] by simp

section \<open>The colour scale\<close>






lemma fold_max_const:
  "\<forall>c \<in> set xs. gdp c = Fin g \<Longrightarrow>
   fold (\<lambda>c m. if jless m (gdp c) then gdp c else m) xs (Fin g) = Fin g"
  by (induction xs) simp_all

lemma fold_min_const:
  "\<forall>c \<in> set xs. gdp c = Fin g \<Longrightarrow>
   fold (\<lambda>c m. if jless (gdp c) m then gdp c else m) xs (Fin g) = Fin g"
  by (induction xs) simp_all

lemma statsMax_const:
  assumes "cs \<noteq> []" and "\<forall>c \<in> set cs. gdp c = Fin g"
  shows "statsMax cs = Fin g"
proof -
  obtain c rest where cs: "cs = c # rest" using assms(1) by (cases cs) auto
  with assms(2) have "gdp c = Fin g" and "\<forall>c \<in> set rest. gdp c = Fin g" by simp_all
  then show ?thesis by (simp add: statsMax_def cs fold_max_const)
qed

lemma statsMin_const:
  assumes "cs \<noteq> []" and "\<forall>c \<in> set cs. gdp c = Fin g"
  shows "statsMin cs = Fin g"
proof -
  obtain c rest where cs: "cs = c # rest" using assms(1) by (cases cs) auto
  with assms(2) have "gdp c = Fin g" and "\<forall>c \<in> set rest. gdp c = Fin g" by simp_all
  then show ?thesis by (simp add: statsMin_def cs fold_min_const)
qed

lemma top_bucket: "bucketIndex (Fin 10000) (Fin 10000) = Fin 4"
proof -
  have "ln (10000::real) \<noteq> 0" by simp
  then show ?thesis by (simp add: bucketIndex_def normalized_def colors_def)
qed

text \<open>
  C4 (as the code has it). When every defined value is \<open>10000\<close>, \<open>min\<close> and \<open>max\<close> are both
  \<open>10000\<close>, the normalised value is \<open>ln 10000 / ln 10000 = 1\<close> (no division by zero, no
  \<open>NaN\<close>), and every region with a value gets the same colour: the last, darkest entry of
  the palette.
\<close>

theorem degenerate_range_top_bucket:
  assumes "cs \<noteq> []" and "\<forall>c \<in> set cs. gdp c = Fin 10000"
  shows "statsMin cs = Fin 10000 \<and> statsMax cs = Fin 10000
     \<and> normalized (statsMax cs) (Fin 10000) = Fin 1
     \<and> (\<forall>c \<in> set cs. colorScale noData (statsMax cs) (Number (gdp c)) = Some ''#1e3a8a'')
     \<and> last colors = ''#1e3a8a''"
proof -
  have mx: "statsMax cs = Fin 10000" using assms by (rule statsMax_const)
  have mn: "statsMin cs = Fin 10000" using assms by (rule statsMin_const)
  have "ln (10000::real) \<noteq> 0" by simp
  then have n: "normalized (Fin 10000) (Fin 10000) = Fin 1" by (simp add: normalized_def)
  have "colorScale noData (Fin 10000) (Number (Fin 10000)) = Some ''#1e3a8a''"
    by (simp add: colorScale_def top_bucket arrayAt_def colors_def)
  with assms(2) mx mn n show ?thesis by (simp add: colors_def)
qed

theorem degenerate_range_witness:
  "colorScale ''#f3f4f6'' (statsMax [sampleStat ''AAA'' 10000, sampleStat ''BBB'' 10000])
     (Number (gdp (sampleStat ''AAA'' 10000))) = Some ''#1e3a8a''"
proof -
  let ?cs = "[sampleStat ''AAA'' 10000, sampleStat ''BBB'' 10000]"
  have a: "?cs \<noteq> []" by simp
  have b: "\<forall>c \<in> set ?cs. gdp c = Fin 10000" by (simp add: sampleStat_def)
  from degenerate_range_top_bucket [OF a b, of "''#f3f4f6''"]
  have "\<forall>c \<in> set ?cs. colorScale ''#f3f4f6'' (statsMax ?cs) (Number (gdp c)) = Some ''#1e3a8a''"
    by blast
  then show ?thesis by simp
qed

text \<open>The common colour is not the first entry of the palette.\<close>

theorem degenerate_range_first_bucket_counterexample:
  "colorScale ''#f3f4f6'' (statsMax [sampleStat ''AAA'' 10000, sampleStat ''BBB'' 10000])
     (Number (Fin 10000)) \<noteq> Some (hd colors)"
proof -
  have "statsMax [sampleStat ''AAA'' 10000, sampleStat ''BBB'' 10000] = Fin 10000"
    by (simp add: statsMax_def sampleStat_def)
  then show ?thesis by (simp add: colorScale_def top_bucket arrayAt_def colors_def)
qed

section \<open>Ranks in the rankings table\<close>



lemma length_insertBy: "length (insertBy cmp x xs) = Suc (length xs)"
  by (induction xs) auto

lemma length_sortBy: "length (sortBy cmp xs) = length xs"
  by (induction xs) (simp_all add: sortBy_def length_insertBy)


















section \<open>Properties of the code synthesis\<close>

lemma length_stateCode: "7 \<le> length (stateCode nm)"
  by (simp add: stateCode_def)

lemma toUpperChar_not_space: "\<not> isSpace c \<Longrightarrow> \<not> isSpace (toUpperChar c)"
proof -
  assume ns: "\<not> isSpace c"
  show ?thesis
  proof (cases "97 \<le> (of_char c :: nat) \<and> (of_char c :: nat) \<le> 122")
    case False
    with ns show ?thesis by (auto simp: toUpperChar_def)
  next
    case True
    then have a: "97 \<le> (of_char c :: nat)" and z: "(of_char c :: nat) \<le> 122"
      by simp_all
    have "(of_char (toUpperChar c) :: nat) = of_char c - 32"
      using True z by (simp add: toUpperChar_def)
    with a z have "65 \<le> (of_char (toUpperChar c) :: nat)" by simp
    then show ?thesis by (auto simp: isSpace_def)
  qed
qed

lemma replaceRuns_no_space: "c \<in> set (replaceRuns b s) \<Longrightarrow> \<not> isSpace c"
  by (induction b s rule: replaceRuns.induct) (auto simp: isSpace_def split: if_splits)

lemma mergeInto_keeps_other_keys:
  assumes "\<forall>nm. k \<noteq> stateCode nm"
  shows "jsget (mergeInto csvText target) k = jsget target k"
proof (cases "split (CHR 0x0A) (trim csvText)")
  case Nil
  then show ?thesis by (simp add: mergeInto_def)
next
  case (Cons line0 rest)
  let ?years = "drop 1 (map trim (split (CHR '','') line0))"
  have "\<forall>y \<in> set rest. \<forall>w. stateEntry ?years y \<noteq> Some (k, w)"
    using assms by (auto simp: stateEntry_def)
  then have "jsget (fold (writes (stateEntry ?years)) rest target) k = jsget target k"
    by (rule fold_writes_other)
  then show ?thesis by (simp add: mergeInto_def Cons mergeRow_writes Let_def)
qed

text \<open>
  C10. The synthesized code of a region depends on the region name only (the same name
  gives the same code), it is the prefix \<^verbatim>\<open>USA_ST_\<close> followed by the upper-cased name with
  each whitespace run replaced by one underscore, it contains no whitespace, and it is
  never a 3-letter country code: it has at least seven characters. So a merge leaves the
  entry of every 3-letter code as it was.
\<close>

theorem stateCode_deterministic_no_collision:
  "(\<forall>n1 n2. n1 = n2 \<longrightarrow> stateCode n1 = stateCode n2)
   \<and> stateCode nm = ''USA_ST_'' @ map toUpperChar (replaceRuns False nm)
   \<and> take 7 (stateCode nm) = ''USA_ST_''
   \<and> (\<forall>c. length c = 3 \<longrightarrow> stateCode nm \<noteq> c)
   \<and> (\<forall>c \<in> set (stateCode nm). \<not> isSpace c)
   \<and> (\<forall>c. length c = 3 \<longrightarrow> jsget (mergeInto csvText target) c = jsget target c)"
proof -
  have three: "\<forall>c. length c = 3 \<longrightarrow> (\<forall>n. c \<noteq> stateCode n)"
  proof (intro allI impI)
    fix c :: string and n
    assume "length c = 3"
    then show "c \<noteq> stateCode n" using length_stateCode [of n] by auto
  qed
  then have "\<forall>c. length c = 3 \<longrightarrow> stateCode nm \<noteq> c" by blast
  moreover have "\<forall>c. length c = 3 \<longrightarrow> jsget (mergeInto csvText target) c = jsget target c"
    using three mergeInto_keeps_other_keys by blast
  moreover have "\<forall>c \<in> set (stateCode nm). \<not> isSpace c"
  proof
    fix c assume "c \<in> set (stateCode nm)"
    then consider "c \<in> set ''USA_ST_''" | d where "d \<in> set (replaceRuns False nm)" "c = toUpperChar d"
      by (auto simp: stateCode_def toUpperCase_def replaceWhitespace_def)
    then show "\<not> isSpace c"
    proof cases
      case 1 then show ?thesis by (auto simp: isSpace_def)
    next
      case 2 then show ?thesis using replaceRuns_no_space toUpperChar_not_space by blast
    qed
  qed
  ultimately show ?thesis
    by (simp add: stateCode_def toUpperCase_def replaceWhitespace_def)
qed

theorem stateCode_witness:
  "stateCode ''New  York'' = ''USA_ST_NEW_YORK'' \<and> length ''USA'' = 3
   \<and> stateCode ''New  York'' \<noteq> ''USA''"
  using stateCode_deterministic_no_collision [of "''New  York''"]
  by (simp add: stateCode_def toUpperCase_def toUpperChar_def replaceWhitespace_def isSpace_def
      char_of_eq_iff)

end
